theory Spec2Isabelle
  imports Complex_Main
begin

section \<open>Exceptions\<close>

text \<open>
  The exceptions that travel through \<^verbatim>\<open>executor.py\<close> and \<^verbatim>\<open>telemetry.py\<close>. Every
  constructor stands for a subclass of Python's \<^verbatim>\<open>Exception\<close>, so each of them is caught
  by an \<^verbatim>\<open>except Exception\<close> clause. \<open>ResourceClosedError\<close> is SQLAlchemy's class of that
  name; \<open>DriverError\<close> is any other exception raised by the connection; the string is the
  text \<^verbatim>\<open>str(e)\<close> of the exception. \<open>QueryExecutionError\<close> carries its message and its
  \<^verbatim>\<open>original_error\<close> (\<^verbatim>\<open>exceptions.py\<close>). Interrupts (\<^verbatim>\<open>KeyboardInterrupt\<close>,
  \<^verbatim>\<open>SystemExit\<close>) are no failures of a statement and are not modelled.
\<close>

datatype exn =
    ResourceClosedError string
  | DriverError string
  | QueryExecutionError string exn
  | ValueError string
  | TypeError string
  | KeyError string
  | AttributeError string

fun exn_str :: "exn \<Rightarrow> string" where
  "exn_str (ResourceClosedError m) = m"
| "exn_str (DriverError m) = m"
| "exn_str (QueryExecutionError m original_error) = m"
| "exn_str (ValueError m) = m"
| "exn_str (TypeError m) = m"
| "exn_str (KeyError m) = m"
| "exn_str (AttributeError m) = m"

section \<open>The connection\<close>

text \<open>
  The connection is the external collaborator: \<^verbatim>\<open>connection.execute(text, params)\<close> returns
  a result object or raises. A result object either carries rows under column keys or is
  closed at once because the statement returns no rows (a command). The state of a
  connection is the list of the calls it has received, oldest first; its behaviour is any
  function from that list and the next call to an outcome, which covers every
  deterministic connection, stubs included.
\<close>

type_synonym 'v params = "(string \<times> 'v) list option"

type_synonym 'v call = "string \<times> 'v params"

datatype 'v Result = RowsResult "string list" "'v list list" | ClosedResult

datatype 'v outcome = Raise exn | Return "'v Result"

type_synonym 'v Connection = "'v call list \<Rightarrow> 'v call \<Rightarrow> 'v outcome"

definition Connection_execute ::
  "'v Connection \<Rightarrow> 'v call list \<Rightarrow> string \<Rightarrow> 'v params \<Rightarrow> 'v outcome \<times> 'v call list" where
  "Connection_execute connection calls query_text prm =
     (connection calls (query_text, prm), calls @ [(query_text, prm)])"

section \<open>Data frames\<close>

text \<open>
  A pandas \<^verbatim>\<open>DataFrame\<close> as the code uses it: column labels (duplicates are possible)
  and rows of cells, each row aligned with the labels. The lookups pair labels and cells
  with \<open>zip\<close>, so no cell is ever read out of range.
\<close>

record 'v DataFrame =
  df_columns :: "string list"
  df_rows :: "'v list list"

definition len_df :: "'v DataFrame \<Rightarrow> int" where
  "len_df df = int (length (df_rows df))"

definition df_empty :: "'v DataFrame \<Rightarrow> bool" where
  "df_empty df = (df_rows df = [] \<or> df_columns df = [])"

definition cells_at :: "string \<Rightarrow> string list \<Rightarrow> 'v list \<Rightarrow> 'v list" where
  "cells_at name cols row = map snd (filter (\<lambda>cv. fst cv = name) (zip cols row))"

text \<open>
  \<^verbatim>\<open>result[name].tolist()\<close>: a missing label raises \<^verbatim>\<open>KeyError\<close>; a label that occurs once
  selects a Series, whose \<^verbatim>\<open>tolist\<close> is the column's cells in row order; a label that occurs
  several times selects a DataFrame, which has no \<^verbatim>\<open>tolist\<close>.
\<close>

definition getitem_tolist :: "string \<Rightarrow> 'v DataFrame \<Rightarrow> exn + 'v list" where
  "getitem_tolist name df =
     (case filter (\<lambda>c. c = name) (df_columns df) of
        [] \<Rightarrow> Inl (KeyError name)
      | [c] \<Rightarrow> Inr (concat (map (cells_at name (df_columns df)) (df_rows df)))
      | _ \<Rightarrow> Inl (AttributeError ''tolist''))"

text \<open>
  \<^verbatim>\<open>int(result.iloc[0][name])\<close>. The builtin \<^verbatim>\<open>int\<close> is a parameter (\<open>py_int\<close>): for each
  cell it either raises or gives an integer. A label that occurs several times selects a
  Series of several cells, which \<^verbatim>\<open>int\<close> refuses with \<^verbatim>\<open>TypeError\<close>.
\<close>

definition int_iloc0 :: "('v \<Rightarrow> exn + int) \<Rightarrow> string \<Rightarrow> 'v DataFrame \<Rightarrow> exn + int" where
  "int_iloc0 py_int name df =
     (case df_rows df of
        [] \<Rightarrow> Inl (KeyError ''iloc'')
      | row # _ \<Rightarrow>
          (case cells_at name (df_columns df) row of
             [] \<Rightarrow> Inl (KeyError name)
           | [v] \<Rightarrow> py_int v
           | _ \<Rightarrow> Inl (TypeError ''cannot convert the series to int'')))"

section \<open>The executor (executor.py)\<close>

text \<open>
  \<^verbatim>\<open>pd.read_sql(query_text, con=connection, params=params)\<close> executes the statement on
  the connection once and builds the frame from the rows. An exception of the connection
  passes through. When the result object returns no rows, reading its keys raises
  SQLAlchemy's \<^verbatim>\<open>ResourceClosedError\<close>.
\<close>

definition read_sql ::
  "'v Connection \<Rightarrow> 'v call list \<Rightarrow> string \<Rightarrow> 'v params \<Rightarrow> (exn + 'v DataFrame) \<times> 'v call list" where
  "read_sql connection calls query_text prm =
     (case Connection_execute connection calls query_text prm of
        (Raise e, calls') \<Rightarrow> (Inl e, calls')
      | (Return (RowsResult cols rws), calls') \<Rightarrow>
          (Inr \<lparr>df_columns = cols, df_rows = rws\<rparr>, calls')
      | (Return ClosedResult, calls') \<Rightarrow>
          (Inl (ResourceClosedError ''This result object does not return rows. It has been closed automatically.''), calls'))"

record 'v SafeQueryExecutor =
  connection :: "'v Connection"

text \<open>What \<^verbatim>\<open>execute_query\<close> returns when it does not return \<^verbatim>\<open>None\<close>.\<close>

datatype 'v query_result = Frame "'v DataFrame" | ResultObject "'v Result"

definition execute_query ::
  "'v SafeQueryExecutor \<Rightarrow> 'v call list \<Rightarrow> string \<Rightarrow> 'v params \<Rightarrow> bool \<Rightarrow> bool \<Rightarrow>
     (exn + 'v query_result option) \<times> 'v call list" where
  "execute_query self calls qry prm raise_on_fail return_results =
     (case
        (if \<not> return_results then
           (case Connection_execute (connection self) calls qry prm of
              (Raise e, calls') \<Rightarrow> (Inl e, calls')
            | (Return res, calls') \<Rightarrow> (Inr (ResultObject res), calls'))
         else
           (case read_sql (connection self) calls qry prm of
              (Inr df, calls') \<Rightarrow> (Inr (Frame df), calls')
            | (Inl (ResourceClosedError m), calls') \<Rightarrow>
                (case Connection_execute (connection self) calls' qry prm of
                   (Raise e, calls'') \<Rightarrow> (Inl e, calls'')
                 | (Return res, calls'') \<Rightarrow> (Inr (ResultObject res), calls''))
            | (Inl e, calls') \<Rightarrow> (Inl e, calls')))
      of
        (Inr r, calls') \<Rightarrow> (Inr (Some r), calls')
      | (Inl e, calls') \<Rightarrow>
          (if raise_on_fail then
             (Inl (QueryExecutionError
                     (''Query execution failed: '' @ qry @ ''. Error: '' @ exn_str e) e), calls')
           else (Inr None, calls')))"

definition execute_command ::
  "'v SafeQueryExecutor \<Rightarrow> 'v call list \<Rightarrow> string \<Rightarrow> 'v params \<Rightarrow> bool \<times> 'v call list" where
  "execute_command self calls command prm =
     (case execute_query self calls command prm False False of
        (Inr r, calls') \<Rightarrow> (True, calls')
      | (Inl e, calls') \<Rightarrow> (False, calls'))"

section \<open>The metrics record (telemetry.py)\<close>

record 'v QueryMetrics =
  query :: string
  params :: "'v params"
  execution_time :: real
  row_count :: int
  timestamp :: real
  indexes_used :: "'v list"
  table_scans :: int
  temp_tables :: int
  memory_used :: "int option"

text \<open>
  The clock as \<^verbatim>\<open>collect_metrics\<close> reads it: \<^verbatim>\<open>time.time()\<close> before and after the primary
  query and \<^verbatim>\<open>datetime.now()\<close> when the record is built. Readings are reals; subtracting
  floats rounds to the nearest float, which keeps the sign of the exact difference.
\<close>

record clock =
  time_before :: real
  time_after :: real
  datetime_now :: real

text \<open>An SQL text literal: the text between single quotes.\<close>

definition quoted :: "string \<Rightarrow> string" where
  "quoted s = CHR 0x27 # s @ [CHR 0x27]"

section \<open>The MySQL collector (telemetry.py)\<close>

text \<open>
  Each probe is a \<^verbatim>\<open>try\<close> around one \<^verbatim>\<open>execute_query\<close> (with \<^verbatim>\<open>raise_on_fail\<close> left
  false) and the reading of its frame; the \<^verbatim>\<open>except Exception\<close> clause gives the default.
  The executor is \<^verbatim>\<open>self.executor\<close>.
\<close>

definition MySQL_get_used_indexes ::
  "'v SafeQueryExecutor \<Rightarrow> 'v call list \<Rightarrow> 'v list \<times> 'v call list" where
  "MySQL_get_used_indexes executor calls =
     (case execute_query executor calls
        (''SELECT index_name FROM information_schema.statistics '' @
         ''WHERE table_schema = DATABASE()'')
        None False True of
        (Inl e, calls') \<Rightarrow> ([], calls')
      | (Inr result, calls') \<Rightarrow>
          (case result of
             Some (Frame df) \<Rightarrow>
               (if ''index_name'' \<in> set (df_columns df) then
                  (case getitem_tolist ''index_name'' df of
                     Inr names \<Rightarrow> (names, calls')
                   | Inl e \<Rightarrow> ([], calls'))
                else ([], calls'))
           | _ \<Rightarrow> ([], calls')))"

definition MySQL_get_table_scans ::
  "'v SafeQueryExecutor \<Rightarrow> ('v \<Rightarrow> exn + int) \<Rightarrow> 'v call list \<Rightarrow> int \<times> 'v call list" where
  "MySQL_get_table_scans executor py_int calls =
     (case execute_query executor calls
        (''SHOW STATUS LIKE '' @ quoted ''Handler_read%'')
        None False True of
        (Inl e, calls') \<Rightarrow> (0, calls')
      | (Inr result, calls') \<Rightarrow>
          (case result of
             Some (Frame df) \<Rightarrow>
               (if ''Value'' \<in> set (df_columns df) \<and> \<not> df_empty df then
                  (case int_iloc0 py_int ''Value'' df of
                     Inr n \<Rightarrow> (n, calls')
                   | Inl e \<Rightarrow> (0, calls'))
                else (0, calls'))
           | _ \<Rightarrow> (0, calls')))"

definition MySQL_get_temp_tables ::
  "'v SafeQueryExecutor \<Rightarrow> ('v \<Rightarrow> exn + int) \<Rightarrow> 'v call list \<Rightarrow> int \<times> 'v call list" where
  "MySQL_get_temp_tables executor py_int calls =
     (case execute_query executor calls
        (''SHOW STATUS LIKE '' @ quoted ''Created_tmp%'')
        None False True of
        (Inl e, calls') \<Rightarrow> (0, calls')
      | (Inr result, calls') \<Rightarrow>
          (case result of
             Some (Frame df) \<Rightarrow>
               (if ''Value'' \<in> set (df_columns df) \<and> \<not> df_empty df then
                  (case int_iloc0 py_int ''Value'' df of
                     Inr n \<Rightarrow> (n, calls')
                   | Inl e \<Rightarrow> (0, calls'))
                else (0, calls'))
           | _ \<Rightarrow> (0, calls')))"

definition MySQL_get_memory_usage ::
  "'v SafeQueryExecutor \<Rightarrow> ('v \<Rightarrow> exn + int) \<Rightarrow> 'v call list \<Rightarrow> int option \<times> 'v call list" where
  "MySQL_get_memory_usage executor py_int calls =
     (case execute_query executor calls
        (''SHOW STATUS LIKE '' @ quoted ''Memory_used'')
        None False True of
        (Inl e, calls') \<Rightarrow> (None, calls')
      | (Inr result, calls') \<Rightarrow>
          (case result of
             Some (Frame df) \<Rightarrow>
               (if ''Value'' \<in> set (df_columns df) \<and> \<not> df_empty df then
                  (case int_iloc0 py_int ''Value'' df of
                     Inr n \<Rightarrow> (Some n, calls')
                   | Inl e \<Rightarrow> (None, calls'))
                else (None, calls'))
           | _ \<Rightarrow> (None, calls')))"

text \<open>
  \<^verbatim>\<open>collect_metrics\<close>: arm, measure, harvest. Python evaluates the keyword arguments of
  \<^verbatim>\<open>QueryMetrics(...)\<close> in the order written, so the probes run in the order
  indexes, table scans, temporary tables, memory.
\<close>

definition MySQL_collect_metrics ::
  "'v SafeQueryExecutor \<Rightarrow> ('v \<Rightarrow> exn + int) \<Rightarrow> clock \<Rightarrow> 'v call list \<Rightarrow> string \<Rightarrow> 'v params \<Rightarrow>
     (exn + 'v query_result option \<times> 'v QueryMetrics) \<times> 'v call list" where
  "MySQL_collect_metrics executor py_int clk calls qry prm =
     (case execute_command executor calls ''SET profiling = 1'' None of
        (armed, calls1) \<Rightarrow>
     (case execute_query executor calls1 qry prm True True of
        (Inl e, calls2) \<Rightarrow> (Inl e, calls2)
      | (Inr result, calls2) \<Rightarrow>
     (case MySQL_get_used_indexes executor calls2 of
        (indexes, calls3) \<Rightarrow>
     (case MySQL_get_table_scans executor py_int calls3 of
        (scans, calls4) \<Rightarrow>
     (case MySQL_get_temp_tables executor py_int calls4 of
        (temps, calls5) \<Rightarrow>
     (case MySQL_get_memory_usage executor py_int calls5 of
        (memory, calls6) \<Rightarrow>
          (Inr (result,
             \<lparr>query = qry,
              params = prm,
              execution_time = time_after clk - time_before clk,
              row_count = (case result of Some (Frame df) \<Rightarrow> len_df df | _ \<Rightarrow> 0),
              timestamp = datetime_now clk,
              indexes_used = indexes,
              table_scans = scans,
              temp_tables = temps,
              memory_used = memory\<rparr>), calls6)))))))"

section \<open>The PostgreSQL collector (telemetry.py)\<close>

definition PostgreSQL_get_used_indexes ::
  "'v SafeQueryExecutor \<Rightarrow> 'v call list \<Rightarrow> 'v list \<times> 'v call list" where
  "PostgreSQL_get_used_indexes executor calls =
     (case execute_query executor calls
        (''SELECT indexname FROM pg_indexes WHERE schemaname = current_schema()'')
        None False True of
        (Inl e, calls') \<Rightarrow> ([], calls')
      | (Inr result, calls') \<Rightarrow>
          (case result of
             Some (Frame df) \<Rightarrow>
               (if ''indexname'' \<in> set (df_columns df) then
                  (case getitem_tolist ''indexname'' df of
                     Inr names \<Rightarrow> (names, calls')
                   | Inl e \<Rightarrow> ([], calls'))
                else ([], calls'))
           | _ \<Rightarrow> ([], calls')))"

definition PostgreSQL_get_table_scans ::
  "'v SafeQueryExecutor \<Rightarrow> ('v \<Rightarrow> exn + int) \<Rightarrow> 'v call list \<Rightarrow> int \<times> 'v call list" where
  "PostgreSQL_get_table_scans executor py_int calls =
     (case execute_query executor calls
        (''SELECT COALESCE(sum(seq_scan), 0) as scans FROM pg_stat_all_tables'')
        None False True of
        (Inl e, calls') \<Rightarrow> (0, calls')
      | (Inr result, calls') \<Rightarrow>
          (case result of
             Some (Frame df) \<Rightarrow>
               (if ''scans'' \<in> set (df_columns df) \<and> \<not> df_empty df then
                  (case int_iloc0 py_int ''scans'' df of
                     Inr n \<Rightarrow> (n, calls')
                   | Inl e \<Rightarrow> (0, calls'))
                else (0, calls'))
           | _ \<Rightarrow> (0, calls')))"

definition PostgreSQL_get_temp_tables ::
  "'v SafeQueryExecutor \<Rightarrow> ('v \<Rightarrow> exn + int) \<Rightarrow> 'v call list \<Rightarrow> int \<times> 'v call list" where
  "PostgreSQL_get_temp_tables executor py_int calls =
     (case execute_query executor calls
        (''SELECT COALESCE(sum(temp_files), 0) as temp_tables '' @
         ''FROM pg_stat_database'')
        None False True of
        (Inl e, calls') \<Rightarrow> (0, calls')
      | (Inr result, calls') \<Rightarrow>
          (case result of
             Some (Frame df) \<Rightarrow>
               (if ''temp_tables'' \<in> set (df_columns df) \<and> \<not> df_empty df then
                  (case int_iloc0 py_int ''temp_tables'' df of
                     Inr n \<Rightarrow> (n, calls')
                   | Inl e \<Rightarrow> (0, calls'))
                else (0, calls'))
           | _ \<Rightarrow> (0, calls')))"

definition PostgreSQL_get_memory_usage ::
  "'v SafeQueryExecutor \<Rightarrow> ('v \<Rightarrow> exn + int) \<Rightarrow> 'v call list \<Rightarrow> int option \<times> 'v call list" where
  "PostgreSQL_get_memory_usage executor py_int calls =
     (case execute_query executor calls
        (''SELECT setting::bigint * pg_size_bytes(unit) as bytes '' @
         ''FROM pg_settings '' @
         ''WHERE name = '' @ quoted ''work_mem'')
        None False True of
        (Inl e, calls') \<Rightarrow> (None, calls')
      | (Inr result, calls') \<Rightarrow>
          (case result of
             Some (Frame df) \<Rightarrow>
               (if ''bytes'' \<in> set (df_columns df) \<and> \<not> df_empty df then
                  (case int_iloc0 py_int ''bytes'' df of
                     Inr n \<Rightarrow> (Some n, calls')
                   | Inl e \<Rightarrow> (None, calls'))
                else (None, calls'))
           | _ \<Rightarrow> (None, calls')))"

definition PostgreSQL_collect_metrics ::
  "'v SafeQueryExecutor \<Rightarrow> ('v \<Rightarrow> exn + int) \<Rightarrow> clock \<Rightarrow> 'v call list \<Rightarrow> string \<Rightarrow> 'v params \<Rightarrow>
     (exn + 'v query_result option \<times> 'v QueryMetrics) \<times> 'v call list" where
  "PostgreSQL_collect_metrics executor py_int clk calls qry prm =
     (case execute_command executor calls ''SET log_statement_stats = on'' None of
        (armed, calls1) \<Rightarrow>
     (case execute_query executor calls1 qry prm True True of
        (Inl e, calls2) \<Rightarrow> (Inl e, calls2)
      | (Inr result, calls2) \<Rightarrow>
     (case PostgreSQL_get_used_indexes executor calls2 of
        (indexes, calls3) \<Rightarrow>
     (case PostgreSQL_get_table_scans executor py_int calls3 of
        (scans, calls4) \<Rightarrow>
     (case PostgreSQL_get_temp_tables executor py_int calls4 of
        (temps, calls5) \<Rightarrow>
     (case PostgreSQL_get_memory_usage executor py_int calls5 of
        (memory, calls6) \<Rightarrow>
          (Inr (result,
             \<lparr>query = qry,
              params = prm,
              execution_time = time_after clk - time_before clk,
              row_count = (case result of Some (Frame df) \<Rightarrow> len_df df | _ \<Rightarrow> 0),
              timestamp = datetime_now clk,
              indexes_used = indexes,
              table_scans = scans,
              temp_tables = temps,
              memory_used = memory\<rparr>), calls6)))))))"

section \<open>The collector factory (telemetry.py, config.py)\<close>





text \<open>A collector object: its class and the two fields its constructor stores.\<close>

datatype 'v TelemetryCollector =
    MySQLTelemetryCollector "'v Connection" "'v SafeQueryExecutor"
  | PostgreSQLTelemetryCollector "'v Connection" "'v SafeQueryExecutor"




text \<open>Method dispatch: \<^verbatim>\<open>collector.collect_metrics(query, params)\<close>.\<close>

fun collect_metrics ::
  "'v TelemetryCollector \<Rightarrow> ('v \<Rightarrow> exn + int) \<Rightarrow> clock \<Rightarrow> 'v call list \<Rightarrow> string \<Rightarrow> 'v params \<Rightarrow>
     (exn + 'v query_result option \<times> 'v QueryMetrics) \<times> 'v call list" where
  "collect_metrics (MySQLTelemetryCollector conn executor) py_int clk calls qry prm =
     MySQL_collect_metrics executor py_int clk calls qry prm"
| "collect_metrics (PostgreSQLTelemetryCollector conn executor) py_int clk calls qry prm =
     PostgreSQL_collect_metrics executor py_int clk calls qry prm"

section \<open>Stub connections\<close>

text \<open>
  Connections with integer cells, for which \<^verbatim>\<open>int(v)\<close> is \<open>v\<close> itself, used to run the code
  on concrete inputs. \<open>accepting\<close> answers every statement with the same three rows.
\<close>

definition three_rows :: "int Result" where
  "three_rows = RowsResult [''id''] [[1], [2], [3]]"

definition accepting :: "int Connection" where
  "accepting calls c = Return three_rows"

text \<open>Accepts the first \<open>n\<close> calls it receives and rejects every later one.\<close>

definition rejecting_from :: "nat \<Rightarrow> int Connection" where
  "rejecting_from n calls c =
     (if length calls < n then Return three_rows else Raise (DriverError ''rejected''))"

text \<open>Rejects the first call it receives and accepts every later one.\<close>

definition rejecting_first :: "int Connection" where
  "rejecting_first calls c =
     (if calls = [] then Raise (DriverError ''access denied'') else Return three_rows)"

text \<open>Every statement is a command: it is run and returns no rows.\<close>

definition commands_only :: "int Connection" where
  "commands_only calls c = Return ClosedResult"

text \<open>Reports the value \<open>-5\<close> under every column the numeric probes read.\<close>

definition negative_counters :: "int Connection" where
  "negative_counters calls c =
     Return (RowsResult [''Value'', ''scans'', ''temp_tables'', ''bytes''] [[-5, -5, -5, -5]])"

text \<open>Cells that are natural numbers: \<^verbatim>\<open>int(v)\<close> is never negative.\<close>

definition natural_counters :: "nat Connection" where
  "natural_counters calls c =
     Return (RowsResult [''Value'', ''scans'', ''temp_tables'', ''bytes''] [[7, 7, 7, 7]])"

definition int_of_nat_cell :: "nat \<Rightarrow> exn + int" where
  "int_of_nat_cell n = Inr (int n)"

definition int_of_int_cell :: "int \<Rightarrow> exn + int" where
  "int_of_int_cell i = Inr i"

text \<open>Clock readings: two seconds pass during the primary query.\<close>

definition steady_clock :: clock where
  "steady_clock = \<lparr>time_before = 10, time_after = 12, datetime_now = 12\<rparr>"

text \<open>
  Clock readings of a wall clock that is set back five seconds while the primary query
  runs (\<^verbatim>\<open>time.time()\<close> is the system's wall clock, not a monotonic one).
\<close>

definition clock_set_back :: clock where
  "clock_set_back = \<lparr>time_before = 10, time_after = 5, datetime_now = 5\<rparr>"



section \<open>The executor: what it sends and when it raises\<close>

lemmas run_executor =
  execute_query_def execute_command_def read_sql_def Connection_execute_def

lemmas run_frames =
  getitem_tolist_def int_iloc0_def cells_at_def len_df_def df_empty_def quoted_def

lemmas run_MySQL =
  MySQL_collect_metrics_def MySQL_get_used_indexes_def MySQL_get_table_scans_def
  MySQL_get_temp_tables_def MySQL_get_memory_usage_def

lemmas run_PostgreSQL =
  PostgreSQL_collect_metrics_def PostgreSQL_get_used_indexes_def PostgreSQL_get_table_scans_def
  PostgreSQL_get_temp_tables_def PostgreSQL_get_memory_usage_def

lemmas run_stubs =
  accepting_def three_rows_def rejecting_from_def rejecting_first_def commands_only_def
  negative_counters_def natural_counters_def int_of_nat_cell_def int_of_int_cell_def
  steady_clock_def clock_set_back_def


lemma execute_query_lenient:
  "\<exists>r calls'. execute_query ex calls q p False rr = (Inr r, calls')"
  by (auto simp: execute_query_def read_sql_def Connection_execute_def
      split: outcome.splits Result.splits exn.splits sum.splits prod.splits)

lemma execute_query_command_calls:
  "snd (execute_query ex calls q p rf False) = calls @ [(q, p)]"
  by (auto simp: execute_query_def read_sql_def Connection_execute_def
      split: outcome.splits Result.splits exn.splits sum.splits prod.splits)

lemma execute_query_calls:
  "snd (execute_query ex calls q p rf True) = calls @ [(q, p)] \<or>
   snd (execute_query ex calls q p rf True) = calls @ [(q, p), (q, p)]"
  by (auto simp: execute_query_def read_sql_def Connection_execute_def
      split: outcome.splits Result.splits exn.splits sum.splits prod.splits)

lemma execute_query_strict_error:
  "execute_query ex calls q p True rr = (Inl e, calls') \<Longrightarrow>
     \<exists>msg cause. e = QueryExecutionError msg cause"
  by (auto simp: execute_query_def read_sql_def Connection_execute_def
      split: outcome.splits Result.splits exn.splits sum.splits prod.splits if_splits)

lemma execute_query_strict_result:
  "execute_query ex calls q p True rr = (Inr r, calls') \<Longrightarrow> r \<noteq> None"
  by (auto simp: execute_query_def read_sql_def Connection_execute_def
      split: outcome.splits Result.splits exn.splits sum.splits prod.splits if_splits)

lemma execute_command_eq:
  "execute_command ex calls command p = (True, calls @ [(command, p)])"
  using execute_query_lenient [of ex calls command p False]
    execute_query_command_calls [of ex calls command p False]
  by (auto simp: execute_command_def)

lemma execute_query_rejecting:
  assumes "\<forall>cs call. \<exists>e. connection ex (base @ cs) call = Raise e"
  shows "fst (execute_query ex (base @ cs) q p False True) = Inr None \<and>
         (\<exists>cs'. snd (execute_query ex (base @ cs) q p False True) = base @ cs')"
proof -
  obtain e1 where first: "connection ex (base @ cs) (q, p) = Raise e1"
    using assms by blast
  obtain e2 where second: "connection ex (base @ cs @ [(q, p)]) (q, p) = Raise e2"
    using assms by blast
  show ?thesis
    using first second
    by (cases e1) (simp_all add: execute_query_def read_sql_def Connection_execute_def)
qed


lemma execute_query_replicate:
  "\<exists>k. 1 \<le> k \<and> k \<le> 2 \<and>
     snd (execute_query ex calls q p rf True) = calls @ replicate k (q, p)"
proof -
  from execute_query_calls [of ex calls q p rf] show ?thesis
  proof
    assume "snd (execute_query ex calls q p rf True) = calls @ [(q, p)]"
    then have "(1::nat) \<le> 1 \<and> (1::nat) \<le> 2 \<and>
        snd (execute_query ex calls q p rf True) = calls @ replicate 1 (q, p)"
      by simp
    then show ?thesis by blast
  next
    assume "snd (execute_query ex calls q p rf True) = calls @ [(q, p), (q, p)]"
    then have "(1::nat) \<le> 2 \<and> (2::nat) \<le> 2 \<and>
        snd (execute_query ex calls q p rf True) = calls @ replicate 2 (q, p)"
      by (simp add: numeral_2_eq_2)
    then show ?thesis by blast
  qed
qed


section \<open>The probes: what they send and their defaults\<close>

lemma MySQL_get_used_indexes_calls:
  "snd (MySQL_get_used_indexes ex calls) =
     snd (execute_query ex calls (''SELECT index_name FROM information_schema.statistics '' @ ''WHERE table_schema = DATABASE()'') None False True)"
  by (auto simp: MySQL_get_used_indexes_def split: prod.splits sum.splits option.splits query_result.splits)

lemma MySQL_get_used_indexes_default:
  "fst (execute_query ex calls (''SELECT index_name FROM information_schema.statistics '' @ ''WHERE table_schema = DATABASE()'') None False True) = Inr None \<Longrightarrow>
     fst (MySQL_get_used_indexes ex calls) = []"
  by (auto simp: MySQL_get_used_indexes_def split: prod.splits sum.splits option.splits query_result.splits)

lemma MySQL_get_table_scans_calls:
  "snd (MySQL_get_table_scans ex py_int calls) =
     snd (execute_query ex calls (''SHOW STATUS LIKE '' @ quoted ''Handler_read%'') None False True)"
  by (auto simp: MySQL_get_table_scans_def split: prod.splits sum.splits option.splits query_result.splits)

lemma MySQL_get_table_scans_default:
  "fst (execute_query ex calls (''SHOW STATUS LIKE '' @ quoted ''Handler_read%'') None False True) = Inr None \<Longrightarrow>
     fst (MySQL_get_table_scans ex py_int calls) = 0"
  by (auto simp: MySQL_get_table_scans_def split: prod.splits sum.splits option.splits query_result.splits)

lemma MySQL_get_temp_tables_calls:
  "snd (MySQL_get_temp_tables ex py_int calls) =
     snd (execute_query ex calls (''SHOW STATUS LIKE '' @ quoted ''Created_tmp%'') None False True)"
  by (auto simp: MySQL_get_temp_tables_def split: prod.splits sum.splits option.splits query_result.splits)

lemma MySQL_get_temp_tables_default:
  "fst (execute_query ex calls (''SHOW STATUS LIKE '' @ quoted ''Created_tmp%'') None False True) = Inr None \<Longrightarrow>
     fst (MySQL_get_temp_tables ex py_int calls) = 0"
  by (auto simp: MySQL_get_temp_tables_def split: prod.splits sum.splits option.splits query_result.splits)

lemma MySQL_get_memory_usage_calls:
  "snd (MySQL_get_memory_usage ex py_int calls) =
     snd (execute_query ex calls (''SHOW STATUS LIKE '' @ quoted ''Memory_used'') None False True)"
  by (auto simp: MySQL_get_memory_usage_def split: prod.splits sum.splits option.splits query_result.splits)

lemma MySQL_get_memory_usage_default:
  "fst (execute_query ex calls (''SHOW STATUS LIKE '' @ quoted ''Memory_used'') None False True) = Inr None \<Longrightarrow>
     fst (MySQL_get_memory_usage ex py_int calls) = None"
  by (auto simp: MySQL_get_memory_usage_def split: prod.splits sum.splits option.splits query_result.splits)

lemma PostgreSQL_get_used_indexes_calls:
  "snd (PostgreSQL_get_used_indexes ex calls) =
     snd (execute_query ex calls (''SELECT indexname FROM pg_indexes WHERE schemaname = current_schema()'') None False True)"
  by (auto simp: PostgreSQL_get_used_indexes_def split: prod.splits sum.splits option.splits query_result.splits)

lemma PostgreSQL_get_used_indexes_default:
  "fst (execute_query ex calls (''SELECT indexname FROM pg_indexes WHERE schemaname = current_schema()'') None False True) = Inr None \<Longrightarrow>
     fst (PostgreSQL_get_used_indexes ex calls) = []"
  by (auto simp: PostgreSQL_get_used_indexes_def split: prod.splits sum.splits option.splits query_result.splits)

lemma PostgreSQL_get_table_scans_calls:
  "snd (PostgreSQL_get_table_scans ex py_int calls) =
     snd (execute_query ex calls (''SELECT COALESCE(sum(seq_scan), 0) as scans FROM pg_stat_all_tables'') None False True)"
  by (auto simp: PostgreSQL_get_table_scans_def split: prod.splits sum.splits option.splits query_result.splits)

lemma PostgreSQL_get_table_scans_default:
  "fst (execute_query ex calls (''SELECT COALESCE(sum(seq_scan), 0) as scans FROM pg_stat_all_tables'') None False True) = Inr None \<Longrightarrow>
     fst (PostgreSQL_get_table_scans ex py_int calls) = 0"
  by (auto simp: PostgreSQL_get_table_scans_def split: prod.splits sum.splits option.splits query_result.splits)

lemma PostgreSQL_get_temp_tables_calls:
  "snd (PostgreSQL_get_temp_tables ex py_int calls) =
     snd (execute_query ex calls (''SELECT COALESCE(sum(temp_files), 0) as temp_tables '' @ ''FROM pg_stat_database'') None False True)"
  by (auto simp: PostgreSQL_get_temp_tables_def split: prod.splits sum.splits option.splits query_result.splits)

lemma PostgreSQL_get_temp_tables_default:
  "fst (execute_query ex calls (''SELECT COALESCE(sum(temp_files), 0) as temp_tables '' @ ''FROM pg_stat_database'') None False True) = Inr None \<Longrightarrow>
     fst (PostgreSQL_get_temp_tables ex py_int calls) = 0"
  by (auto simp: PostgreSQL_get_temp_tables_def split: prod.splits sum.splits option.splits query_result.splits)

lemma PostgreSQL_get_memory_usage_calls:
  "snd (PostgreSQL_get_memory_usage ex py_int calls) =
     snd (execute_query ex calls (''SELECT setting::bigint * pg_size_bytes(unit) as bytes '' @ ''FROM pg_settings '' @ ''WHERE name = '' @ quoted ''work_mem'') None False True)"
  by (auto simp: PostgreSQL_get_memory_usage_def split: prod.splits sum.splits option.splits query_result.splits)

lemma PostgreSQL_get_memory_usage_default:
  "fst (execute_query ex calls (''SELECT setting::bigint * pg_size_bytes(unit) as bytes '' @ ''FROM pg_settings '' @ ''WHERE name = '' @ quoted ''work_mem'') None False True) = Inr None \<Longrightarrow>
     fst (PostgreSQL_get_memory_usage ex py_int calls) = None"
  by (auto simp: PostgreSQL_get_memory_usage_def split: prod.splits sum.splits option.splits query_result.splits)

lemma MySQL_get_used_indexes_rejecting:
  assumes "\<forall>cs call. \<exists>e. connection ex (base @ cs) call = Raise e"
  shows "fst (MySQL_get_used_indexes ex (base @ cs)) = [] \<and>
         (\<exists>cs'. snd (MySQL_get_used_indexes ex (base @ cs)) = base @ cs')"
  using execute_query_rejecting [OF assms, of cs]
  by (simp add: MySQL_get_used_indexes_calls MySQL_get_used_indexes_default)


lemma MySQL_get_used_indexes_replicate:
  "\<exists>k. 1 \<le> k \<and> k \<le> 2 \<and>
     snd (MySQL_get_used_indexes ex calls) = calls @ replicate k (''SELECT index_name FROM information_schema.statistics '' @ ''WHERE table_schema = DATABASE()'', None)"
  unfolding MySQL_get_used_indexes_calls by (rule execute_query_replicate)

lemma MySQL_get_table_scans_rejecting:
  assumes "\<forall>cs call. \<exists>e. connection ex (base @ cs) call = Raise e"
  shows "fst (MySQL_get_table_scans ex py_int (base @ cs)) = 0 \<and>
         (\<exists>cs'. snd (MySQL_get_table_scans ex py_int (base @ cs)) = base @ cs')"
  using execute_query_rejecting [OF assms, of cs]
  by (simp add: MySQL_get_table_scans_calls MySQL_get_table_scans_default)


lemma MySQL_get_table_scans_replicate:
  "\<exists>k. 1 \<le> k \<and> k \<le> 2 \<and>
     snd (MySQL_get_table_scans ex py_int calls) = calls @ replicate k (''SHOW STATUS LIKE '' @ quoted ''Handler_read%'', None)"
  unfolding MySQL_get_table_scans_calls by (rule execute_query_replicate)


lemma MySQL_get_temp_tables_rejecting:
  assumes "\<forall>cs call. \<exists>e. connection ex (base @ cs) call = Raise e"
  shows "fst (MySQL_get_temp_tables ex py_int (base @ cs)) = 0 \<and>
         (\<exists>cs'. snd (MySQL_get_temp_tables ex py_int (base @ cs)) = base @ cs')"
  using execute_query_rejecting [OF assms, of cs]
  by (simp add: MySQL_get_temp_tables_calls MySQL_get_temp_tables_default)


lemma MySQL_get_temp_tables_replicate:
  "\<exists>k. 1 \<le> k \<and> k \<le> 2 \<and>
     snd (MySQL_get_temp_tables ex py_int calls) = calls @ replicate k (''SHOW STATUS LIKE '' @ quoted ''Created_tmp%'', None)"
  unfolding MySQL_get_temp_tables_calls by (rule execute_query_replicate)


lemma MySQL_get_memory_usage_rejecting:
  assumes "\<forall>cs call. \<exists>e. connection ex (base @ cs) call = Raise e"
  shows "fst (MySQL_get_memory_usage ex py_int (base @ cs)) = None \<and>
         (\<exists>cs'. snd (MySQL_get_memory_usage ex py_int (base @ cs)) = base @ cs')"
  using execute_query_rejecting [OF assms, of cs]
  by (simp add: MySQL_get_memory_usage_calls MySQL_get_memory_usage_default)


lemma MySQL_get_memory_usage_replicate:
  "\<exists>k. 1 \<le> k \<and> k \<le> 2 \<and>
     snd (MySQL_get_memory_usage ex py_int calls) = calls @ replicate k (''SHOW STATUS LIKE '' @ quoted ''Memory_used'', None)"
  unfolding MySQL_get_memory_usage_calls by (rule execute_query_replicate)

lemma PostgreSQL_get_used_indexes_rejecting:
  assumes "\<forall>cs call. \<exists>e. connection ex (base @ cs) call = Raise e"
  shows "fst (PostgreSQL_get_used_indexes ex (base @ cs)) = [] \<and>
         (\<exists>cs'. snd (PostgreSQL_get_used_indexes ex (base @ cs)) = base @ cs')"
  using execute_query_rejecting [OF assms, of cs]
  by (simp add: PostgreSQL_get_used_indexes_calls PostgreSQL_get_used_indexes_default)


lemma PostgreSQL_get_used_indexes_replicate:
  "\<exists>k. 1 \<le> k \<and> k \<le> 2 \<and>
     snd (PostgreSQL_get_used_indexes ex calls) = calls @ replicate k (''SELECT indexname FROM pg_indexes WHERE schemaname = current_schema()'', None)"
  unfolding PostgreSQL_get_used_indexes_calls by (rule execute_query_replicate)

lemma PostgreSQL_get_table_scans_rejecting:
  assumes "\<forall>cs call. \<exists>e. connection ex (base @ cs) call = Raise e"
  shows "fst (PostgreSQL_get_table_scans ex py_int (base @ cs)) = 0 \<and>
         (\<exists>cs'. snd (PostgreSQL_get_table_scans ex py_int (base @ cs)) = base @ cs')"
  using execute_query_rejecting [OF assms, of cs]
  by (simp add: PostgreSQL_get_table_scans_calls PostgreSQL_get_table_scans_default)


lemma PostgreSQL_get_table_scans_replicate:
  "\<exists>k. 1 \<le> k \<and> k \<le> 2 \<and>
     snd (PostgreSQL_get_table_scans ex py_int calls) = calls @ replicate k (''SELECT COALESCE(sum(seq_scan), 0) as scans FROM pg_stat_all_tables'', None)"
  unfolding PostgreSQL_get_table_scans_calls by (rule execute_query_replicate)


lemma PostgreSQL_get_temp_tables_rejecting:
  assumes "\<forall>cs call. \<exists>e. connection ex (base @ cs) call = Raise e"
  shows "fst (PostgreSQL_get_temp_tables ex py_int (base @ cs)) = 0 \<and>
         (\<exists>cs'. snd (PostgreSQL_get_temp_tables ex py_int (base @ cs)) = base @ cs')"
  using execute_query_rejecting [OF assms, of cs]
  by (simp add: PostgreSQL_get_temp_tables_calls PostgreSQL_get_temp_tables_default)


lemma PostgreSQL_get_temp_tables_replicate:
  "\<exists>k. 1 \<le> k \<and> k \<le> 2 \<and>
     snd (PostgreSQL_get_temp_tables ex py_int calls) = calls @ replicate k (''SELECT COALESCE(sum(temp_files), 0) as temp_tables '' @ ''FROM pg_stat_database'', None)"
  unfolding PostgreSQL_get_temp_tables_calls by (rule execute_query_replicate)


lemma PostgreSQL_get_memory_usage_rejecting:
  assumes "\<forall>cs call. \<exists>e. connection ex (base @ cs) call = Raise e"
  shows "fst (PostgreSQL_get_memory_usage ex py_int (base @ cs)) = None \<and>
         (\<exists>cs'. snd (PostgreSQL_get_memory_usage ex py_int (base @ cs)) = base @ cs')"
  using execute_query_rejecting [OF assms, of cs]
  by (simp add: PostgreSQL_get_memory_usage_calls PostgreSQL_get_memory_usage_default)


lemma PostgreSQL_get_memory_usage_replicate:
  "\<exists>k. 1 \<le> k \<and> k \<le> 2 \<and>
     snd (PostgreSQL_get_memory_usage ex py_int calls) = calls @ replicate k (''SELECT setting::bigint * pg_size_bytes(unit) as bytes '' @ ''FROM pg_settings '' @ ''WHERE name = '' @ quoted ''work_mem'', None)"
  unfolding PostgreSQL_get_memory_usage_calls by (rule execute_query_replicate)

section \<open>The collectors, unfolded\<close>

lemma MySQL_collect_metrics_failure:
  "execute_query ex (calls @ [(''SET profiling = 1'', None)]) q p True True = (Inl e, c2) \<Longrightarrow>
     MySQL_collect_metrics ex py_int clk calls q p = (Inl e, c2)"
  by (simp add: MySQL_collect_metrics_def execute_command_eq)

lemma MySQL_collect_metrics_success:
  "execute_query ex (calls @ [(''SET profiling = 1'', None)]) q p True True = (Inr r, c2) \<Longrightarrow>
     MySQL_collect_metrics ex py_int clk calls q p =
       (Inr (r,
          \<lparr>query = q,
           params = p,
           execution_time = time_after clk - time_before clk,
           row_count = (case r of Some (Frame df) \<Rightarrow> len_df df | _ \<Rightarrow> 0),
           timestamp = datetime_now clk,
           indexes_used = fst (MySQL_get_used_indexes ex c2),
           table_scans = fst (MySQL_get_table_scans ex py_int
             (snd (MySQL_get_used_indexes ex c2))),
           temp_tables = fst (MySQL_get_temp_tables ex py_int
             (snd (MySQL_get_table_scans ex py_int (snd (MySQL_get_used_indexes ex c2))))),
           memory_used = fst (MySQL_get_memory_usage ex py_int
             (snd (MySQL_get_temp_tables ex py_int (snd (MySQL_get_table_scans ex py_int (snd (MySQL_get_used_indexes ex c2)))))))\<rparr>),
        snd (MySQL_get_memory_usage ex py_int (snd (MySQL_get_temp_tables ex py_int (snd (MySQL_get_table_scans ex py_int (snd (MySQL_get_used_indexes ex c2))))))))"
  by (simp add: MySQL_collect_metrics_def execute_command_eq case_prod_beta)

lemma PostgreSQL_collect_metrics_failure:
  "execute_query ex (calls @ [(''SET log_statement_stats = on'', None)]) q p True True = (Inl e, c2) \<Longrightarrow>
     PostgreSQL_collect_metrics ex py_int clk calls q p = (Inl e, c2)"
  by (simp add: PostgreSQL_collect_metrics_def execute_command_eq)

lemma PostgreSQL_collect_metrics_success:
  "execute_query ex (calls @ [(''SET log_statement_stats = on'', None)]) q p True True = (Inr r, c2) \<Longrightarrow>
     PostgreSQL_collect_metrics ex py_int clk calls q p =
       (Inr (r,
          \<lparr>query = q,
           params = p,
           execution_time = time_after clk - time_before clk,
           row_count = (case r of Some (Frame df) \<Rightarrow> len_df df | _ \<Rightarrow> 0),
           timestamp = datetime_now clk,
           indexes_used = fst (PostgreSQL_get_used_indexes ex c2),
           table_scans = fst (PostgreSQL_get_table_scans ex py_int
             (snd (PostgreSQL_get_used_indexes ex c2))),
           temp_tables = fst (PostgreSQL_get_temp_tables ex py_int
             (snd (PostgreSQL_get_table_scans ex py_int (snd (PostgreSQL_get_used_indexes ex c2))))),
           memory_used = fst (PostgreSQL_get_memory_usage ex py_int
             (snd (PostgreSQL_get_temp_tables ex py_int (snd (PostgreSQL_get_table_scans ex py_int (snd (PostgreSQL_get_used_indexes ex c2)))))))\<rparr>),
        snd (PostgreSQL_get_memory_usage ex py_int (snd (PostgreSQL_get_temp_tables ex py_int (snd (PostgreSQL_get_table_scans ex py_int (snd (PostgreSQL_get_used_indexes ex c2))))))))"
  by (simp add: PostgreSQL_collect_metrics_def execute_command_eq case_prod_beta)

lemma MySQL_collect_metrics_raises:
  assumes "MySQL_collect_metrics ex py_int clk calls q p = (Inl e, c')"
  shows "execute_query ex (calls @ [(''SET profiling = 1'', None)]) q p True True = (Inl e, c')"
proof (cases "execute_query ex (calls @ [(''SET profiling = 1'', None)]) q p True True")
  case (Pair outcome c2)
  show ?thesis
  proof (cases outcome)
    case (Inl e2)
    with Pair assms show ?thesis
      by (simp add: MySQL_collect_metrics_failure)
  next
    case (Inr r)
    with Pair assms show ?thesis
      by (simp add: MySQL_collect_metrics_success)
  qed
qed

lemma PostgreSQL_collect_metrics_raises:
  assumes "PostgreSQL_collect_metrics ex py_int clk calls q p = (Inl e, c')"
  shows "execute_query ex (calls @ [(''SET log_statement_stats = on'', None)]) q p True True = (Inl e, c')"
proof (cases "execute_query ex (calls @ [(''SET log_statement_stats = on'', None)]) q p True True")
  case (Pair outcome c2)
  show ?thesis
  proof (cases outcome)
    case (Inl e2)
    with Pair assms show ?thesis
      by (simp add: PostgreSQL_collect_metrics_failure)
  next
    case (Inr r)
    with Pair assms show ?thesis
      by (simp add: PostgreSQL_collect_metrics_success)
  qed
qed

section \<open>Which failures leave the collector\<close>

text \<open>
  In the theorems below the primary query is the call
  \<^verbatim>\<open>self.executor.execute_query(query, params, raise_on_fail=True)\<close> of
  \<^verbatim>\<open>collect_metrics\<close>, made after the connection has received the arm statement. It
  succeeds when that call returns and fails when it raises.
\<close>

text \<open>
  C1. For every connection on which the primary query succeeds, \<^verbatim>\<open>collect_metrics\<close> of
  the MySQL and of the PostgreSQL collector returns the primary result with a metrics
  record: no failure of the arm statement or of a probe leaves it. When
  \<^verbatim>\<open>collect_metrics\<close> raises, the primary query has raised that very exception, and it is
  a \<^verbatim>\<open>QueryExecutionError\<close>.
\<close>

theorem collect_metrics_raises_only_for_primary:
  "(execute_query ex (calls @ [(''SET profiling = 1'', None)]) q p True True = (Inr r, c) \<longrightarrow>
      (\<exists>m c'. collect_metrics (MySQLTelemetryCollector conn ex) py_int clk calls q p =
         (Inr (r, m), c'))) \<and>
   (collect_metrics (MySQLTelemetryCollector conn ex) py_int clk calls q p = (Inl e, c) \<longrightarrow>
      execute_query ex (calls @ [(''SET profiling = 1'', None)]) q p True True = (Inl e, c) \<and>
      (\<exists>msg cause. e = QueryExecutionError msg cause)) \<and>
   (execute_query ex (calls @ [(''SET log_statement_stats = on'', None)]) q p True True = (Inr r, c) \<longrightarrow>
      (\<exists>m c'. collect_metrics (PostgreSQLTelemetryCollector conn ex) py_int clk calls q p =
         (Inr (r, m), c'))) \<and>
   (collect_metrics (PostgreSQLTelemetryCollector conn ex) py_int clk calls q p = (Inl e, c) \<longrightarrow>
      execute_query ex (calls @ [(''SET log_statement_stats = on'', None)]) q p True True = (Inl e, c) \<and>
      (\<exists>msg cause. e = QueryExecutionError msg cause))"
proof (intro conjI impI)
  assume "execute_query ex (calls @ [(''SET profiling = 1'', None)]) q p True True = (Inr r, c)"
  then show "\<exists>m c'. collect_metrics (MySQLTelemetryCollector conn ex) py_int clk calls q p =
      (Inr (r, m), c')"
    by (simp add: MySQL_collect_metrics_success)
next
  assume "execute_query ex (calls @ [(''SET log_statement_stats = on'', None)]) q p True True = (Inr r, c)"
  then show "\<exists>m c'. collect_metrics (PostgreSQLTelemetryCollector conn ex) py_int clk calls q p =
      (Inr (r, m), c')"
    by (simp add: PostgreSQL_collect_metrics_success)
next
  assume "collect_metrics (MySQLTelemetryCollector conn ex) py_int clk calls q p = (Inl e, c)"
  then have *: "execute_query ex (calls @ [(''SET profiling = 1'', None)]) q p True True = (Inl e, c)"
    by (simp add: MySQL_collect_metrics_raises)
  then show "execute_query ex (calls @ [(''SET profiling = 1'', None)]) q p True True = (Inl e, c)" .
  from * show "\<exists>msg cause. e = QueryExecutionError msg cause"
    by (rule execute_query_strict_error)
next
  assume "collect_metrics (PostgreSQLTelemetryCollector conn ex) py_int clk calls q p = (Inl e, c)"
  then have *: "execute_query ex (calls @ [(''SET log_statement_stats = on'', None)]) q p True True = (Inl e, c)"
    by (simp add: PostgreSQL_collect_metrics_raises)
  then show "execute_query ex (calls @ [(''SET log_statement_stats = on'', None)]) q p True True = (Inl e, c)" .
  from * show "\<exists>msg cause. e = QueryExecutionError msg cause"
    by (rule execute_query_strict_error)
qed

text \<open>
  The theorem applied to a connection that accepts every statement, and to one that
  accepts the arm statement and rejects the primary query.
\<close>

theorem collect_metrics_raises_only_for_primary_witness:
  "(\<exists>m c'. collect_metrics (MySQLTelemetryCollector accepting \<lparr>connection = accepting\<rparr>) int_of_int_cell steady_clock [] ''SELECT * FROM t'' None =
      (Inr (Some (Frame \<lparr>df_columns = [''id''], df_rows = [[1], [2], [3]]\<rparr>), m), c')) \<and>
   execute_query \<lparr>connection = rejecting_from 1\<rparr> ([] @ [(''SET profiling = 1'', None)]) ''SELECT * FROM t'' None True True =
     (Inl (QueryExecutionError ''Query execution failed: SELECT * FROM t. Error: rejected'' (DriverError ''rejected'')), [(''SET profiling = 1'', None), (''SELECT * FROM t'', None)]) \<and>
   (\<exists>m c'. collect_metrics (PostgreSQLTelemetryCollector accepting \<lparr>connection = accepting\<rparr>) int_of_int_cell steady_clock [] ''SELECT * FROM t'' None =
      (Inr (Some (Frame \<lparr>df_columns = [''id''], df_rows = [[1], [2], [3]]\<rparr>), m), c')) \<and>
   execute_query \<lparr>connection = rejecting_from 1\<rparr> ([] @ [(''SET log_statement_stats = on'', None)]) ''SELECT * FROM t'' None True True =
     (Inl (QueryExecutionError ''Query execution failed: SELECT * FROM t. Error: rejected'' (DriverError ''rejected'')), [(''SET log_statement_stats = on'', None), (''SELECT * FROM t'', None)])"
proof -
  have MySQL_ok: "execute_query \<lparr>connection = accepting\<rparr> ([] @ [(''SET profiling = 1'', None)]) ''SELECT * FROM t'' None True True =
      (Inr (Some (Frame \<lparr>df_columns = [''id''], df_rows = [[1], [2], [3]]\<rparr>)), [(''SET profiling = 1'', None), (''SELECT * FROM t'', None)])"
    by (simp add: run_executor run_frames run_stubs)
  have MySQL_raised: "collect_metrics (MySQLTelemetryCollector (rejecting_from 1) \<lparr>connection = rejecting_from 1\<rparr>) int_of_int_cell steady_clock [] ''SELECT * FROM t'' None =
      (Inl (QueryExecutionError ''Query execution failed: SELECT * FROM t. Error: rejected'' (DriverError ''rejected'')), [(''SET profiling = 1'', None), (''SELECT * FROM t'', None)])"
    by (simp add: run_executor run_frames run_stubs run_MySQL)
  note MySQL_returns = collect_metrics_raises_only_for_primary
    [where ex = "\<lparr>connection = accepting\<rparr>" and conn = accepting and py_int = int_of_int_cell
       and clk = steady_clock and calls = "[]" and q = "''SELECT * FROM t''" and p = None,
     THEN conjunct1, rule_format, OF MySQL_ok]
  note MySQL_cause = collect_metrics_raises_only_for_primary
    [where ex = "\<lparr>connection = rejecting_from 1\<rparr>" and conn = "rejecting_from 1"
       and py_int = int_of_int_cell and clk = steady_clock and calls = "[]"
       and q = "''SELECT * FROM t''" and p = None,
     THEN conjunct2 [THEN conjunct1], rule_format, OF MySQL_raised]
  have PostgreSQL_ok: "execute_query \<lparr>connection = accepting\<rparr> ([] @ [(''SET log_statement_stats = on'', None)]) ''SELECT * FROM t'' None True True =
      (Inr (Some (Frame \<lparr>df_columns = [''id''], df_rows = [[1], [2], [3]]\<rparr>)), [(''SET log_statement_stats = on'', None), (''SELECT * FROM t'', None)])"
    by (simp add: run_executor run_frames run_stubs)
  have PostgreSQL_raised: "collect_metrics (PostgreSQLTelemetryCollector (rejecting_from 1) \<lparr>connection = rejecting_from 1\<rparr>) int_of_int_cell steady_clock [] ''SELECT * FROM t'' None =
      (Inl (QueryExecutionError ''Query execution failed: SELECT * FROM t. Error: rejected'' (DriverError ''rejected'')), [(''SET log_statement_stats = on'', None), (''SELECT * FROM t'', None)])"
    by (simp add: run_executor run_frames run_stubs run_PostgreSQL)
  note PostgreSQL_returns = collect_metrics_raises_only_for_primary
    [where ex = "\<lparr>connection = accepting\<rparr>" and conn = accepting and py_int = int_of_int_cell
       and clk = steady_clock and calls = "[]" and q = "''SELECT * FROM t''" and p = None,
     THEN conjunct2 [THEN conjunct2, THEN conjunct1], rule_format, OF PostgreSQL_ok]
  note PostgreSQL_cause = collect_metrics_raises_only_for_primary
    [where ex = "\<lparr>connection = rejecting_from 1\<rparr>" and conn = "rejecting_from 1"
       and py_int = int_of_int_cell and clk = steady_clock and calls = "[]"
       and q = "''SELECT * FROM t''" and p = None,
     THEN conjunct2 [THEN conjunct2, THEN conjunct2], rule_format, OF PostgreSQL_raised]
  from MySQL_returns MySQL_cause PostgreSQL_returns PostgreSQL_cause show ?thesis
    by blast
qed

text \<open>
  C2. For every connection on which the primary query fails, \<^verbatim>\<open>collect_metrics\<close> raises
  the \<^verbatim>\<open>QueryExecutionError\<close> of the primary query, and the connection has received
  nothing but the arm statement and the primary query (the latter once, or twice when
  the executor has run it again): no probe statement is executed.
\<close>

theorem primary_failure_stops_collection:
  "(execute_query ex (calls @ [(''SET profiling = 1'', None)]) q p True True = (Inl e, c) \<longrightarrow>
      MySQL_collect_metrics ex py_int clk calls q p = (Inl e, c) \<and>
      (\<exists>msg cause. e = QueryExecutionError msg cause) \<and>
      (c = calls @ [(''SET profiling = 1'', None), (q, p)] \<or>
       c = calls @ [(''SET profiling = 1'', None), (q, p), (q, p)])) \<and>
   (execute_query ex (calls @ [(''SET log_statement_stats = on'', None)]) q p True True = (Inl e, c) \<longrightarrow>
      PostgreSQL_collect_metrics ex py_int clk calls q p = (Inl e, c) \<and>
      (\<exists>msg cause. e = QueryExecutionError msg cause) \<and>
      (c = calls @ [(''SET log_statement_stats = on'', None), (q, p)] \<or>
       c = calls @ [(''SET log_statement_stats = on'', None), (q, p), (q, p)]))"
proof (intro conjI impI)
  assume run: "execute_query ex (calls @ [(''SET profiling = 1'', None)]) q p True True = (Inl e, c)"
  then show "MySQL_collect_metrics ex py_int clk calls q p = (Inl e, c)"
    by (rule MySQL_collect_metrics_failure)
  from run show "\<exists>msg cause. e = QueryExecutionError msg cause"
    by (rule execute_query_strict_error)
  from run execute_query_calls [of ex "calls @ [(''SET profiling = 1'', None)]" q p True]
  show "c = calls @ [(''SET profiling = 1'', None), (q, p)] \<or>
      c = calls @ [(''SET profiling = 1'', None), (q, p), (q, p)]"
    by simp
next
  assume run: "execute_query ex (calls @ [(''SET log_statement_stats = on'', None)]) q p True True = (Inl e, c)"
  then show "PostgreSQL_collect_metrics ex py_int clk calls q p = (Inl e, c)"
    by (rule PostgreSQL_collect_metrics_failure)
  from run show "\<exists>msg cause. e = QueryExecutionError msg cause"
    by (rule execute_query_strict_error)
  from run execute_query_calls [of ex "calls @ [(''SET log_statement_stats = on'', None)]" q p True]
  show "c = calls @ [(''SET log_statement_stats = on'', None), (q, p)] \<or>
      c = calls @ [(''SET log_statement_stats = on'', None), (q, p), (q, p)]"
    by simp
qed

text \<open>
  The theorem applied to a connection that accepts the arm statement and rejects the
  primary query.
\<close>

theorem primary_failure_stops_collection_witness:
  "MySQL_collect_metrics \<lparr>connection = rejecting_from 1\<rparr> int_of_int_cell steady_clock [] ''SELECT * FROM t'' None =
     (Inl (QueryExecutionError ''Query execution failed: SELECT * FROM t. Error: rejected'' (DriverError ''rejected'')), [(''SET profiling = 1'', None), (''SELECT * FROM t'', None)]) \<and>
   PostgreSQL_collect_metrics \<lparr>connection = rejecting_from 1\<rparr> int_of_int_cell steady_clock [] ''SELECT * FROM t'' None =
     (Inl (QueryExecutionError ''Query execution failed: SELECT * FROM t. Error: rejected'' (DriverError ''rejected'')), [(''SET log_statement_stats = on'', None), (''SELECT * FROM t'', None)])"
proof -
  have MySQL_fails: "execute_query \<lparr>connection = rejecting_from 1\<rparr> ([] @ [(''SET profiling = 1'', None)]) ''SELECT * FROM t'' None True True =
      (Inl (QueryExecutionError ''Query execution failed: SELECT * FROM t. Error: rejected'' (DriverError ''rejected'')), [(''SET profiling = 1'', None), (''SELECT * FROM t'', None)])"
    by (simp add: run_executor run_frames run_stubs)
  note MySQL_stops = primary_failure_stops_collection
    [where ex = "\<lparr>connection = rejecting_from 1\<rparr>" and py_int = int_of_int_cell
       and clk = steady_clock and calls = "[]" and q = "''SELECT * FROM t''" and p = None,
     THEN conjunct1, rule_format, OF MySQL_fails]
  have PostgreSQL_fails: "execute_query \<lparr>connection = rejecting_from 1\<rparr> ([] @ [(''SET log_statement_stats = on'', None)]) ''SELECT * FROM t'' None True True =
      (Inl (QueryExecutionError ''Query execution failed: SELECT * FROM t. Error: rejected'' (DriverError ''rejected'')), [(''SET log_statement_stats = on'', None), (''SELECT * FROM t'', None)])"
    by (simp add: run_executor run_frames run_stubs)
  note PostgreSQL_stops = primary_failure_stops_collection
    [where ex = "\<lparr>connection = rejecting_from 1\<rparr>" and py_int = int_of_int_cell
       and clk = steady_clock and calls = "[]" and q = "''SELECT * FROM t''" and p = None,
     THEN conjunct2, rule_format, OF PostgreSQL_fails]
  from MySQL_stops PostgreSQL_stops show ?thesis
    by blast
qed

text \<open>
  C3. When the primary query succeeds and the connection rejects every statement it
  receives afterwards, \<^verbatim>\<open>collect_metrics\<close> returns, and its record has no index names,
  zero table scans, zero temporary tables and no memory figure.
\<close>

theorem rejected_probes_give_defaults:
  assumes rejects: "\<forall>cs call. \<exists>e. connection ex (c @ cs) call = Raise e"
  shows
  "(execute_query ex (calls @ [(''SET profiling = 1'', None)]) q p True True = (Inr r, c) \<longrightarrow>
      (\<exists>m c'. MySQL_collect_metrics ex py_int clk calls q p = (Inr (r, m), c') \<and>
         indexes_used m = [] \<and> table_scans m = 0 \<and> temp_tables m = 0 \<and>
         memory_used m = None)) \<and>
   (execute_query ex (calls @ [(''SET log_statement_stats = on'', None)]) q p True True = (Inr r, c) \<longrightarrow>
      (\<exists>m c'. PostgreSQL_collect_metrics ex py_int clk calls q p = (Inr (r, m), c') \<and>
         indexes_used m = [] \<and> table_scans m = 0 \<and> temp_tables m = 0 \<and>
         memory_used m = None))"
proof (intro conjI impI)
  assume run: "execute_query ex (calls @ [(''SET profiling = 1'', None)]) q p True True = (Inr r, c)"
  obtain cs3 where i: "fst (MySQL_get_used_indexes ex c) = []"
      and c3: "snd (MySQL_get_used_indexes ex c) = c @ cs3"
    using MySQL_get_used_indexes_rejecting [OF rejects, of "[]"] by auto
  obtain cs4 where s: "fst (MySQL_get_table_scans ex py_int (c @ cs3)) = 0"
      and c4: "snd (MySQL_get_table_scans ex py_int (c @ cs3)) = c @ cs4"
    using MySQL_get_table_scans_rejecting [OF rejects, of py_int cs3] by auto
  obtain cs5 where t: "fst (MySQL_get_temp_tables ex py_int (c @ cs4)) = 0"
      and c5: "snd (MySQL_get_temp_tables ex py_int (c @ cs4)) = c @ cs5"
    using MySQL_get_temp_tables_rejecting [OF rejects, of py_int cs4] by auto
  have m: "fst (MySQL_get_memory_usage ex py_int (c @ cs5)) = None"
    using MySQL_get_memory_usage_rejecting [OF rejects, of py_int cs5] by auto
  show "\<exists>m c'. MySQL_collect_metrics ex py_int clk calls q p = (Inr (r, m), c') \<and>
      indexes_used m = [] \<and> table_scans m = 0 \<and> temp_tables m = 0 \<and> memory_used m = None"
    by (simp add: MySQL_collect_metrics_success [OF run] i c3 s c4 t c5 m)
next
  assume run: "execute_query ex (calls @ [(''SET log_statement_stats = on'', None)]) q p True True = (Inr r, c)"
  obtain cs3 where i: "fst (PostgreSQL_get_used_indexes ex c) = []"
      and c3: "snd (PostgreSQL_get_used_indexes ex c) = c @ cs3"
    using PostgreSQL_get_used_indexes_rejecting [OF rejects, of "[]"] by auto
  obtain cs4 where s: "fst (PostgreSQL_get_table_scans ex py_int (c @ cs3)) = 0"
      and c4: "snd (PostgreSQL_get_table_scans ex py_int (c @ cs3)) = c @ cs4"
    using PostgreSQL_get_table_scans_rejecting [OF rejects, of py_int cs3] by auto
  obtain cs5 where t: "fst (PostgreSQL_get_temp_tables ex py_int (c @ cs4)) = 0"
      and c5: "snd (PostgreSQL_get_temp_tables ex py_int (c @ cs4)) = c @ cs5"
    using PostgreSQL_get_temp_tables_rejecting [OF rejects, of py_int cs4] by auto
  have m: "fst (PostgreSQL_get_memory_usage ex py_int (c @ cs5)) = None"
    using PostgreSQL_get_memory_usage_rejecting [OF rejects, of py_int cs5] by auto
  show "\<exists>m c'. PostgreSQL_collect_metrics ex py_int clk calls q p = (Inr (r, m), c') \<and>
      indexes_used m = [] \<and> table_scans m = 0 \<and> temp_tables m = 0 \<and> memory_used m = None"
    by (simp add: PostgreSQL_collect_metrics_success [OF run] i c3 s c4 t c5 m)
qed

text \<open>
  The theorem applied to a connection that accepts the arm statement and the primary
  query and rejects everything after them.
\<close>

theorem rejected_probes_give_defaults_witness:
  "(\<exists>m c'. MySQL_collect_metrics \<lparr>connection = rejecting_from 2\<rparr> int_of_int_cell steady_clock [] ''SELECT * FROM t'' None =
        (Inr (Some (Frame \<lparr>df_columns = [''id''], df_rows = [[1], [2], [3]]\<rparr>), m), c') \<and>
      indexes_used m = [] \<and> table_scans m = 0 \<and> temp_tables m = 0 \<and>
      memory_used m = None) \<and>
   (\<exists>m c'. PostgreSQL_collect_metrics \<lparr>connection = rejecting_from 2\<rparr> int_of_int_cell steady_clock [] ''SELECT * FROM t'' None =
        (Inr (Some (Frame \<lparr>df_columns = [''id''], df_rows = [[1], [2], [3]]\<rparr>), m), c') \<and>
      indexes_used m = [] \<and> table_scans m = 0 \<and> temp_tables m = 0 \<and>
      memory_used m = None)"
proof -
  have MySQL_rejects: "\<forall>cs call. \<exists>e.
      connection \<lparr>connection = rejecting_from 2\<rparr> ([(''SET profiling = 1'', None), (''SELECT * FROM t'', None)] @ cs) call = Raise e"
    by (simp add: run_stubs)
  have MySQL_ok: "execute_query \<lparr>connection = rejecting_from 2\<rparr> ([] @ [(''SET profiling = 1'', None)]) ''SELECT * FROM t'' None True True =
      (Inr (Some (Frame \<lparr>df_columns = [''id''], df_rows = [[1], [2], [3]]\<rparr>)), [(''SET profiling = 1'', None), (''SELECT * FROM t'', None)])"
    by (simp add: run_executor run_frames run_stubs)
  note MySQL_defaults = rejected_probes_give_defaults
    [OF MySQL_rejects, where py_int = int_of_int_cell and clk = steady_clock
       and calls = "[]" and q = "''SELECT * FROM t''" and p = None,
     THEN conjunct1, rule_format, OF MySQL_ok]
  have PostgreSQL_rejects: "\<forall>cs call. \<exists>e.
      connection \<lparr>connection = rejecting_from 2\<rparr> ([(''SET log_statement_stats = on'', None), (''SELECT * FROM t'', None)] @ cs) call = Raise e"
    by (simp add: run_stubs)
  have PostgreSQL_ok: "execute_query \<lparr>connection = rejecting_from 2\<rparr> ([] @ [(''SET log_statement_stats = on'', None)]) ''SELECT * FROM t'' None True True =
      (Inr (Some (Frame \<lparr>df_columns = [''id''], df_rows = [[1], [2], [3]]\<rparr>)), [(''SET log_statement_stats = on'', None), (''SELECT * FROM t'', None)])"
    by (simp add: run_executor run_frames run_stubs)
  note PostgreSQL_defaults = rejected_probes_give_defaults
    [OF PostgreSQL_rejects, where py_int = int_of_int_cell and clk = steady_clock
       and calls = "[]" and q = "''SELECT * FROM t''" and p = None,
     THEN conjunct2, rule_format, OF PostgreSQL_ok]
  from MySQL_defaults PostgreSQL_defaults show ?thesis
    by blast
qed

text \<open>
  C6. When the arm statement fails on the connection and the primary query succeeds,
  \<^verbatim>\<open>collect_metrics\<close> returns, and after the arm statement the connection has received
  the primary query and then each of the four probe statements, in the order indexes,
  table scans, temporary tables, memory (each once, or twice when the executor has run
  it again).
\<close>

theorem arm_failure_is_absorbed:
  "(connection ex calls (''SET profiling = 1'', None) = Raise e0 \<and>
    execute_query ex (calls @ [(''SET profiling = 1'', None)]) q p True True = (Inr r, c) \<longrightarrow>
      (\<exists>m c' k0 k1 k2 k3 k4.
         MySQL_collect_metrics ex py_int clk calls q p = (Inr (r, m), c') \<and>
         1 \<le> k0 \<and> k0 \<le> 2 \<and> 1 \<le> k1 \<and> k1 \<le> 2 \<and> 1 \<le> k2 \<and> k2 \<le> 2 \<and>
         1 \<le> k3 \<and> k3 \<le> 2 \<and> 1 \<le> k4 \<and> k4 \<le> (2::nat) \<and>
         c' = calls @ [(''SET profiling = 1'', None)] @ replicate k0 (q, p) @
           replicate k1 (''SELECT index_name FROM information_schema.statistics '' @ ''WHERE table_schema = DATABASE()'', None) @
           replicate k2 (''SHOW STATUS LIKE '' @ quoted ''Handler_read%'', None) @
           replicate k3 (''SHOW STATUS LIKE '' @ quoted ''Created_tmp%'', None) @
           replicate k4 (''SHOW STATUS LIKE '' @ quoted ''Memory_used'', None))) \<and>
   (connection ex calls (''SET log_statement_stats = on'', None) = Raise e0 \<and>
    execute_query ex (calls @ [(''SET log_statement_stats = on'', None)]) q p True True = (Inr r, c) \<longrightarrow>
      (\<exists>m c' k0 k1 k2 k3 k4.
         PostgreSQL_collect_metrics ex py_int clk calls q p = (Inr (r, m), c') \<and>
         1 \<le> k0 \<and> k0 \<le> 2 \<and> 1 \<le> k1 \<and> k1 \<le> 2 \<and> 1 \<le> k2 \<and> k2 \<le> 2 \<and>
         1 \<le> k3 \<and> k3 \<le> 2 \<and> 1 \<le> k4 \<and> k4 \<le> (2::nat) \<and>
         c' = calls @ [(''SET log_statement_stats = on'', None)] @ replicate k0 (q, p) @
           replicate k1 (''SELECT indexname FROM pg_indexes WHERE schemaname = current_schema()'', None) @
           replicate k2 (''SELECT COALESCE(sum(seq_scan), 0) as scans FROM pg_stat_all_tables'', None) @
           replicate k3 (''SELECT COALESCE(sum(temp_files), 0) as temp_tables '' @ ''FROM pg_stat_database'', None) @
           replicate k4 (''SELECT setting::bigint * pg_size_bytes(unit) as bytes '' @ ''FROM pg_settings '' @ ''WHERE name = '' @ quoted ''work_mem'', None)))"
proof (intro conjI impI)
  assume "connection ex calls (''SET profiling = 1'', None) = Raise e0 \<and>
    execute_query ex (calls @ [(''SET profiling = 1'', None)]) q p True True = (Inr r, c)"
  then have run: "execute_query ex (calls @ [(''SET profiling = 1'', None)]) q p True True = (Inr r, c)"
    by blast
  obtain k0 where k0: "1 \<le> k0" "k0 \<le> 2"
      and c2: "c = (calls @ [(''SET profiling = 1'', None)]) @ replicate k0 (q, p)"
    using execute_query_replicate [of ex "calls @ [(''SET profiling = 1'', None)]" q p True] run
    by auto
  obtain k1 c3 where k1: "1 \<le> k1" "k1 \<le> 2"
      and c3: "snd (MySQL_get_used_indexes ex c) = c3"
        "c3 = c @ replicate k1 (''SELECT index_name FROM information_schema.statistics '' @ ''WHERE table_schema = DATABASE()'', None)"
    using MySQL_get_used_indexes_replicate [of ex c] by auto
  obtain k2 c4 where k2: "1 \<le> k2" "k2 \<le> 2"
      and c4: "snd (MySQL_get_table_scans ex py_int c3) = c4"
        "c4 = c3 @ replicate k2 (''SHOW STATUS LIKE '' @ quoted ''Handler_read%'', None)"
    using MySQL_get_table_scans_replicate [of ex py_int c3] by auto
  obtain k3 c5 where k3: "1 \<le> k3" "k3 \<le> 2"
      and c5: "snd (MySQL_get_temp_tables ex py_int c4) = c5"
        "c5 = c4 @ replicate k3 (''SHOW STATUS LIKE '' @ quoted ''Created_tmp%'', None)"
    using MySQL_get_temp_tables_replicate [of ex py_int c4] by auto
  obtain k4 c6 where k4: "1 \<le> k4" "k4 \<le> 2"
      and c6: "snd (MySQL_get_memory_usage ex py_int c5) = c6"
        "c6 = c5 @ replicate k4 (''SHOW STATUS LIKE '' @ quoted ''Memory_used'', None)"
    using MySQL_get_memory_usage_replicate [of ex py_int c5] by auto
  have sent: "snd (MySQL_collect_metrics ex py_int clk calls q p) = c6"
    unfolding MySQL_collect_metrics_success [OF run] snd_conv c3(1) c4(1) c5(1) c6(1) ..
  have returns: "\<exists>m. MySQL_collect_metrics ex py_int clk calls q p = (Inr (r, m), c6)"
    using sent by (simp add: MySQL_collect_metrics_success [OF run])
  have shape: "c6 = calls @ [(''SET profiling = 1'', None)] @ replicate k0 (q, p) @
           replicate k1 (''SELECT index_name FROM information_schema.statistics '' @ ''WHERE table_schema = DATABASE()'', None) @
           replicate k2 (''SHOW STATUS LIKE '' @ quoted ''Handler_read%'', None) @
           replicate k3 (''SHOW STATUS LIKE '' @ quoted ''Created_tmp%'', None) @
           replicate k4 (''SHOW STATUS LIKE '' @ quoted ''Memory_used'', None)"
    unfolding c6(2) c5(2) c4(2) c3(2) c2 by simp
  from returns shape k0 k1 k2 k3 k4
  show "\<exists>m c' k0 k1 k2 k3 k4.
         MySQL_collect_metrics ex py_int clk calls q p = (Inr (r, m), c') \<and>
         1 \<le> k0 \<and> k0 \<le> 2 \<and> 1 \<le> k1 \<and> k1 \<le> 2 \<and> 1 \<le> k2 \<and> k2 \<le> 2 \<and>
         1 \<le> k3 \<and> k3 \<le> 2 \<and> 1 \<le> k4 \<and> k4 \<le> (2::nat) \<and>
         c' = calls @ [(''SET profiling = 1'', None)] @ replicate k0 (q, p) @
           replicate k1 (''SELECT index_name FROM information_schema.statistics '' @ ''WHERE table_schema = DATABASE()'', None) @
           replicate k2 (''SHOW STATUS LIKE '' @ quoted ''Handler_read%'', None) @
           replicate k3 (''SHOW STATUS LIKE '' @ quoted ''Created_tmp%'', None) @
           replicate k4 (''SHOW STATUS LIKE '' @ quoted ''Memory_used'', None)"
    by blast
next
  assume "connection ex calls (''SET log_statement_stats = on'', None) = Raise e0 \<and>
    execute_query ex (calls @ [(''SET log_statement_stats = on'', None)]) q p True True = (Inr r, c)"
  then have run: "execute_query ex (calls @ [(''SET log_statement_stats = on'', None)]) q p True True = (Inr r, c)"
    by blast
  obtain k0 where k0: "1 \<le> k0" "k0 \<le> 2"
      and c2: "c = (calls @ [(''SET log_statement_stats = on'', None)]) @ replicate k0 (q, p)"
    using execute_query_replicate [of ex "calls @ [(''SET log_statement_stats = on'', None)]" q p True] run
    by auto
  obtain k1 c3 where k1: "1 \<le> k1" "k1 \<le> 2"
      and c3: "snd (PostgreSQL_get_used_indexes ex c) = c3"
        "c3 = c @ replicate k1 (''SELECT indexname FROM pg_indexes WHERE schemaname = current_schema()'', None)"
    using PostgreSQL_get_used_indexes_replicate [of ex c] by auto
  obtain k2 c4 where k2: "1 \<le> k2" "k2 \<le> 2"
      and c4: "snd (PostgreSQL_get_table_scans ex py_int c3) = c4"
        "c4 = c3 @ replicate k2 (''SELECT COALESCE(sum(seq_scan), 0) as scans FROM pg_stat_all_tables'', None)"
    using PostgreSQL_get_table_scans_replicate [of ex py_int c3] by auto
  obtain k3 c5 where k3: "1 \<le> k3" "k3 \<le> 2"
      and c5: "snd (PostgreSQL_get_temp_tables ex py_int c4) = c5"
        "c5 = c4 @ replicate k3 (''SELECT COALESCE(sum(temp_files), 0) as temp_tables '' @ ''FROM pg_stat_database'', None)"
    using PostgreSQL_get_temp_tables_replicate [of ex py_int c4] by auto
  obtain k4 c6 where k4: "1 \<le> k4" "k4 \<le> 2"
      and c6: "snd (PostgreSQL_get_memory_usage ex py_int c5) = c6"
        "c6 = c5 @ replicate k4 (''SELECT setting::bigint * pg_size_bytes(unit) as bytes '' @ ''FROM pg_settings '' @ ''WHERE name = '' @ quoted ''work_mem'', None)"
    using PostgreSQL_get_memory_usage_replicate [of ex py_int c5] by auto
  have sent: "snd (PostgreSQL_collect_metrics ex py_int clk calls q p) = c6"
    unfolding PostgreSQL_collect_metrics_success [OF run] snd_conv c3(1) c4(1) c5(1) c6(1) ..
  have returns: "\<exists>m. PostgreSQL_collect_metrics ex py_int clk calls q p = (Inr (r, m), c6)"
    using sent by (simp add: PostgreSQL_collect_metrics_success [OF run])
  have shape: "c6 = calls @ [(''SET log_statement_stats = on'', None)] @ replicate k0 (q, p) @
           replicate k1 (''SELECT indexname FROM pg_indexes WHERE schemaname = current_schema()'', None) @
           replicate k2 (''SELECT COALESCE(sum(seq_scan), 0) as scans FROM pg_stat_all_tables'', None) @
           replicate k3 (''SELECT COALESCE(sum(temp_files), 0) as temp_tables '' @ ''FROM pg_stat_database'', None) @
           replicate k4 (''SELECT setting::bigint * pg_size_bytes(unit) as bytes '' @ ''FROM pg_settings '' @ ''WHERE name = '' @ quoted ''work_mem'', None)"
    unfolding c6(2) c5(2) c4(2) c3(2) c2 by simp
  from returns shape k0 k1 k2 k3 k4
  show "\<exists>m c' k0 k1 k2 k3 k4.
         PostgreSQL_collect_metrics ex py_int clk calls q p = (Inr (r, m), c') \<and>
         1 \<le> k0 \<and> k0 \<le> 2 \<and> 1 \<le> k1 \<and> k1 \<le> 2 \<and> 1 \<le> k2 \<and> k2 \<le> 2 \<and>
         1 \<le> k3 \<and> k3 \<le> 2 \<and> 1 \<le> k4 \<and> k4 \<le> (2::nat) \<and>
         c' = calls @ [(''SET log_statement_stats = on'', None)] @ replicate k0 (q, p) @
           replicate k1 (''SELECT indexname FROM pg_indexes WHERE schemaname = current_schema()'', None) @
           replicate k2 (''SELECT COALESCE(sum(seq_scan), 0) as scans FROM pg_stat_all_tables'', None) @
           replicate k3 (''SELECT COALESCE(sum(temp_files), 0) as temp_tables '' @ ''FROM pg_stat_database'', None) @
           replicate k4 (''SELECT setting::bigint * pg_size_bytes(unit) as bytes '' @ ''FROM pg_settings '' @ ''WHERE name = '' @ quoted ''work_mem'', None)"
    by blast
qed

text \<open>
  The theorem applied to a connection that rejects the first statement it receives, the
  arm statement, and accepts every later one.
\<close>

theorem arm_failure_is_absorbed_witness:
  "(\<exists>m c' k0 k1 k2 k3 k4.
      MySQL_collect_metrics \<lparr>connection = rejecting_first\<rparr> int_of_int_cell steady_clock [] ''SELECT * FROM t'' None =
        (Inr (Some (Frame \<lparr>df_columns = [''id''], df_rows = [[1], [2], [3]]\<rparr>), m), c') \<and>
      1 \<le> k0 \<and> k0 \<le> 2 \<and> 1 \<le> k1 \<and> k1 \<le> 2 \<and> 1 \<le> k2 \<and> k2 \<le> 2 \<and>
      1 \<le> k3 \<and> k3 \<le> 2 \<and> 1 \<le> k4 \<and> k4 \<le> (2::nat) \<and>
      c' = [(''SET profiling = 1'', None)] @ replicate k0 (''SELECT * FROM t'', None) @
        replicate k1 (''SELECT index_name FROM information_schema.statistics '' @ ''WHERE table_schema = DATABASE()'', None) @
        replicate k2 (''SHOW STATUS LIKE '' @ quoted ''Handler_read%'', None) @
        replicate k3 (''SHOW STATUS LIKE '' @ quoted ''Created_tmp%'', None) @
        replicate k4 (''SHOW STATUS LIKE '' @ quoted ''Memory_used'', None)) \<and>
   (\<exists>m c' k0 k1 k2 k3 k4.
      PostgreSQL_collect_metrics \<lparr>connection = rejecting_first\<rparr> int_of_int_cell steady_clock [] ''SELECT * FROM t'' None =
        (Inr (Some (Frame \<lparr>df_columns = [''id''], df_rows = [[1], [2], [3]]\<rparr>), m), c') \<and>
      1 \<le> k0 \<and> k0 \<le> 2 \<and> 1 \<le> k1 \<and> k1 \<le> 2 \<and> 1 \<le> k2 \<and> k2 \<le> 2 \<and>
      1 \<le> k3 \<and> k3 \<le> 2 \<and> 1 \<le> k4 \<and> k4 \<le> (2::nat) \<and>
      c' = [(''SET log_statement_stats = on'', None)] @ replicate k0 (''SELECT * FROM t'', None) @
        replicate k1 (''SELECT indexname FROM pg_indexes WHERE schemaname = current_schema()'', None) @
        replicate k2 (''SELECT COALESCE(sum(seq_scan), 0) as scans FROM pg_stat_all_tables'', None) @
        replicate k3 (''SELECT COALESCE(sum(temp_files), 0) as temp_tables '' @ ''FROM pg_stat_database'', None) @
        replicate k4 (''SELECT setting::bigint * pg_size_bytes(unit) as bytes '' @ ''FROM pg_settings '' @ ''WHERE name = '' @ quoted ''work_mem'', None))"
proof -
  have MySQL_arm: "connection \<lparr>connection = rejecting_first\<rparr> [] (''SET profiling = 1'', None) =
      Raise (DriverError ''access denied'') \<and>
    execute_query \<lparr>connection = rejecting_first\<rparr> ([] @ [(''SET profiling = 1'', None)]) ''SELECT * FROM t'' None True True =
      (Inr (Some (Frame \<lparr>df_columns = [''id''], df_rows = [[1], [2], [3]]\<rparr>)), [(''SET profiling = 1'', None), (''SELECT * FROM t'', None)])"
    by (simp add: run_executor run_frames run_stubs)
  note MySQL_absorbed = arm_failure_is_absorbed
    [where ex = "\<lparr>connection = rejecting_first\<rparr>" and py_int = int_of_int_cell
       and clk = steady_clock and calls = "[]" and q = "''SELECT * FROM t''" and p = None,
     THEN conjunct1, rule_format, OF MySQL_arm]
  have PostgreSQL_arm: "connection \<lparr>connection = rejecting_first\<rparr> [] (''SET log_statement_stats = on'', None) =
      Raise (DriverError ''access denied'') \<and>
    execute_query \<lparr>connection = rejecting_first\<rparr> ([] @ [(''SET log_statement_stats = on'', None)]) ''SELECT * FROM t'' None True True =
      (Inr (Some (Frame \<lparr>df_columns = [''id''], df_rows = [[1], [2], [3]]\<rparr>)), [(''SET log_statement_stats = on'', None), (''SELECT * FROM t'', None)])"
    by (simp add: run_executor run_frames run_stubs)
  note PostgreSQL_absorbed = arm_failure_is_absorbed
    [where ex = "\<lparr>connection = rejecting_first\<rparr>" and py_int = int_of_int_cell
       and clk = steady_clock and calls = "[]" and q = "''SELECT * FROM t''" and p = None,
     THEN conjunct2, rule_format, OF PostgreSQL_arm]
  from MySQL_absorbed PostgreSQL_absorbed show ?thesis
    by simp
qed

section \<open>The statements a collector sends\<close>




section \<open>The fields of the record\<close>

text \<open>
  C5, as the code has it. For every successful primary query the record's
  \<^verbatim>\<open>execution_time\<close> is the clock reading after the query minus the reading before it,
  which is not negative when the clock has not gone back in between; \<^verbatim>\<open>row_count\<close> is
  the number of rows of the primary result when it is a frame, and 0 when it is a bare
  result object.
\<close>

theorem collect_metrics_time_and_rows:
  "(execute_query ex (calls @ [(''SET profiling = 1'', None)]) q p True True = (Inr r, c) \<longrightarrow>
      (\<exists>m c'. MySQL_collect_metrics ex py_int clk calls q p = (Inr (r, m), c') \<and>
         execution_time m = time_after clk - time_before clk \<and>
         (time_before clk \<le> time_after clk \<longrightarrow> 0 \<le> execution_time m) \<and>
         row_count m =
           (case r of Some (Frame df) \<Rightarrow> int (length (df_rows df)) | _ \<Rightarrow> 0))) \<and>
   (execute_query ex (calls @ [(''SET log_statement_stats = on'', None)]) q p True True = (Inr r, c) \<longrightarrow>
      (\<exists>m c'. PostgreSQL_collect_metrics ex py_int clk calls q p = (Inr (r, m), c') \<and>
         execution_time m = time_after clk - time_before clk \<and>
         (time_before clk \<le> time_after clk \<longrightarrow> 0 \<le> execution_time m) \<and>
         row_count m =
           (case r of Some (Frame df) \<Rightarrow> int (length (df_rows df)) | _ \<Rightarrow> 0)))"
proof (intro conjI impI)
  assume run: "execute_query ex (calls @ [(''SET profiling = 1'', None)]) q p True True = (Inr r, c)"
  show "\<exists>m c'. MySQL_collect_metrics ex py_int clk calls q p = (Inr (r, m), c') \<and>
         execution_time m = time_after clk - time_before clk \<and>
         (time_before clk \<le> time_after clk \<longrightarrow> 0 \<le> execution_time m) \<and>
         row_count m =
           (case r of Some (Frame df) \<Rightarrow> int (length (df_rows df)) | _ \<Rightarrow> 0)"
    by (simp add: MySQL_collect_metrics_success [OF run] len_df_def
        split: option.splits query_result.splits)
next
  assume run: "execute_query ex (calls @ [(''SET log_statement_stats = on'', None)]) q p True True = (Inr r, c)"
  show "\<exists>m c'. PostgreSQL_collect_metrics ex py_int clk calls q p = (Inr (r, m), c') \<and>
         execution_time m = time_after clk - time_before clk \<and>
         (time_before clk \<le> time_after clk \<longrightarrow> 0 \<le> execution_time m) \<and>
         row_count m =
           (case r of Some (Frame df) \<Rightarrow> int (length (df_rows df)) | _ \<Rightarrow> 0)"
    by (simp add: PostgreSQL_collect_metrics_success [OF run] len_df_def
        split: option.splits query_result.splits)
qed

text \<open>
  The theorem applied to a connection that answers with three rows, two seconds passing.
\<close>

theorem collect_metrics_time_and_rows_witness:
  "(\<exists>m c'. MySQL_collect_metrics \<lparr>connection = accepting\<rparr> int_of_int_cell steady_clock [] ''SELECT * FROM t'' None =
        (Inr (Some (Frame \<lparr>df_columns = [''id''], df_rows = [[1], [2], [3]]\<rparr>), m), c') \<and>
      execution_time m = 2 \<and> 0 \<le> execution_time m \<and> row_count m = 3) \<and>
   (\<exists>m c'. PostgreSQL_collect_metrics \<lparr>connection = accepting\<rparr> int_of_int_cell steady_clock [] ''SELECT * FROM t'' None =
        (Inr (Some (Frame \<lparr>df_columns = [''id''], df_rows = [[1], [2], [3]]\<rparr>), m), c') \<and>
      execution_time m = 2 \<and> 0 \<le> execution_time m \<and> row_count m = 3)"
proof -
  have MySQL_ok: "execute_query \<lparr>connection = accepting\<rparr> ([] @ [(''SET profiling = 1'', None)]) ''SELECT * FROM t'' None True True =
      (Inr (Some (Frame \<lparr>df_columns = [''id''], df_rows = [[1], [2], [3]]\<rparr>)), [(''SET profiling = 1'', None), (''SELECT * FROM t'', None)])"
    by (simp add: run_executor run_frames run_stubs)
  note MySQL_measured = collect_metrics_time_and_rows
    [where ex = "\<lparr>connection = accepting\<rparr>" and py_int = int_of_int_cell
       and clk = steady_clock and calls = "[]" and q = "''SELECT * FROM t''" and p = None,
     THEN conjunct1, rule_format, OF MySQL_ok]
  have PostgreSQL_ok: "execute_query \<lparr>connection = accepting\<rparr> ([] @ [(''SET log_statement_stats = on'', None)]) ''SELECT * FROM t'' None True True =
      (Inr (Some (Frame \<lparr>df_columns = [''id''], df_rows = [[1], [2], [3]]\<rparr>)), [(''SET log_statement_stats = on'', None), (''SELECT * FROM t'', None)])"
    by (simp add: run_executor run_frames run_stubs)
  note PostgreSQL_measured = collect_metrics_time_and_rows
    [where ex = "\<lparr>connection = accepting\<rparr>" and py_int = int_of_int_cell
       and clk = steady_clock and calls = "[]" and q = "''SELECT * FROM t''" and p = None,
     THEN conjunct2, rule_format, OF PostgreSQL_ok]
  from MySQL_measured PostgreSQL_measured show ?thesis
    by (simp add: steady_clock_def)
qed

text \<open>
  \<^verbatim>\<open>time.time()\<close> reads the wall clock. When it is set back five seconds while the
  primary query runs, the query succeeds and the record's \<^verbatim>\<open>execution_time\<close> is negative.
\<close>

theorem clock_set_back_gives_negative_time:
  "fst (MySQL_collect_metrics \<lparr>connection = accepting\<rparr> int_of_int_cell clock_set_back [] ''SELECT * FROM t'' None) =
     Inr (Some (Frame \<lparr>df_columns = [''id''], df_rows = [[1], [2], [3]]\<rparr>),
         \<lparr>query = ''SELECT * FROM t'', params = None, execution_time = - 5, row_count = 3,
          timestamp = 5, indexes_used = [], table_scans = 0, temp_tables = 0,
          memory_used = None\<rparr>) \<and>
   execution_time (snd (projr (fst (MySQL_collect_metrics \<lparr>connection = accepting\<rparr> int_of_int_cell clock_set_back [] ''SELECT * FROM t'' None)))) < 0"
  by (simp add: run_executor run_frames run_stubs run_MySQL)




section \<open>The executor's command path\<close>

text \<open>
  C10. For every connection behaviour, \<^verbatim>\<open>execute_command\<close> returns \<^verbatim>\<open>True\<close>, also when the
  statement fails on the connection: the \<^verbatim>\<open>execute_query\<close> it calls, with \<^verbatim>\<open>raise_on_fail\<close>
  false, returns and never raises, so the branch of \<^verbatim>\<open>execute_command\<close> that returns
  \<^verbatim>\<open>False\<close> is never taken.
\<close>

theorem execute_command_always_True:
  "fst (execute_command ex calls command prm) = True \<and>
   (\<exists>r calls'. execute_query ex calls command prm False False = (Inr r, calls'))"
proof -
  obtain r calls' where run: "execute_query ex calls command prm False False = (Inr r, calls')"
    using execute_query_lenient by blast
  then have "fst (execute_command ex calls command prm) = True"
    by (simp add: execute_command_def)
  with run show ?thesis by auto
qed

text \<open>
  C7. A statement executed with \<^verbatim>\<open>return_results\<close> true is meant to reach the connection
  once. On a connection that runs \<^verbatim>\<open>INSERT INTO t VALUES (1)\<close> and returns no rows, the
  code sends the statement twice: once inside \<^verbatim>\<open>pd.read_sql\<close> and once more in the
  \<^verbatim>\<open>except ResourceClosedError\<close> branch.
\<close>

theorem execute_query_sends_command_twice:
  "execute_query \<lparr>connection = commands_only\<rparr> [] ''INSERT INTO t VALUES (1)'' None False True =
     (Inr (Some (ResultObject ClosedResult)),
      [(''INSERT INTO t VALUES (1)'', None), (''INSERT INTO t VALUES (1)'', None)])"
  by (simp add: execute_query_def read_sql_def Connection_execute_def commands_only_def)

section \<open>The collector factory\<close>


end
